theory Spec2Isabelle
  imports Main "HOL-Library.AList"
begin

section \<open>Configuration values\<close>

text \<open>
  The configuration of \<^verbatim>\<open>markdown_to_word.py\<close> is a tree of Python dictionaries, as
  \<^verbatim>\<open>json.load\<close> builds it. A dictionary keeps its keys in insertion order, so it is an
  association list; a float is kept as the decimal literal \<open>m * 10 ^ e\<close> that was written
  (\<open>JFloat m e\<close>), since the merge never computes with it.
\<close>

datatype json =
    JNull
  | JBool bool
  | JInt int
  | JFloat int int
  | JStr string
  | JArr "json list"
  | JObj "(string \<times> json) list"

text \<open>\<^verbatim>\<open>isinstance(value, dict)\<close>\<close>

fun is_dict :: "json \<Rightarrow> bool" where
  "is_dict (JObj _) = True"
| "is_dict _ = False"

definition rgb :: "int \<Rightarrow> int \<Rightarrow> int \<Rightarrow> json" where
  "rgb r g b = JObj [(''r'', JInt r), (''g'', JInt g), (''b'', JInt b)]"

text \<open>The literal \<^verbatim>\<open>DEFAULT_CONFIG\<close> (lines 21 to 147 of the source).\<close>

definition DEFAULT_CONFIG :: "(string \<times> json) list" where
  "DEFAULT_CONFIG =
   [(''styles'', JObj
      [(''h1'', JObj
         [(''font_name'', JStr ''Arial''), (''font_size'', JInt 18), (''bold'', JBool True),
          (''color'', rgb 0 51 102), (''space_before'', JInt 24), (''space_after'', JInt 12),
          (''keep_with_next'', JBool True)]),
       (''h2'', JObj
         [(''font_name'', JStr ''Arial''), (''font_size'', JInt 16), (''bold'', JBool True),
          (''color'', rgb 0 102 153), (''space_before'', JInt 18), (''space_after'', JInt 10),
          (''keep_with_next'', JBool True)]),
       (''h3'', JObj
         [(''font_name'', JStr ''Arial''), (''font_size'', JInt 14), (''bold'', JBool True),
          (''color'', rgb 0 153 204), (''space_before'', JInt 14), (''space_after'', JInt 8),
          (''keep_with_next'', JBool True)]),
       (''h4'', JObj
         [(''font_name'', JStr ''Arial''), (''font_size'', JInt 12), (''bold'', JBool True),
          (''color'', rgb 0 153 204), (''space_before'', JInt 12), (''space_after'', JInt 6),
          (''keep_with_next'', JBool True)]),
       (''normal'', JObj
         [(''font_name'', JStr ''Times New Roman''), (''font_size'', JInt 11),
          (''color'', rgb 0 0 0), (''space_after'', JInt 8), (''line_spacing'', JFloat 115 (-2))]),
       (''code'', JObj
         [(''font_name'', JStr ''Consolas''), (''font_size'', JInt 10),
          (''color'', rgb 128 0 128), (''space_after'', JInt 8)]),
       (''code_block'', JObj
         [(''font_name'', JStr ''Consolas''), (''font_size'', JInt 10),
          (''color'', rgb 0 0 0), (''background'', rgb 245 245 245),
          (''space_before'', JInt 8), (''space_after'', JInt 8)]),
       (''list_item'', JObj
         [(''font_name'', JStr ''Times New Roman''), (''font_size'', JInt 11),
          (''color'', rgb 0 0 0), (''space_after'', JInt 0), (''left_indent'', JFloat 5 (-1))]),
       (''table'', JObj
         [(''font_name'', JStr ''Times New Roman''), (''font_size'', JInt 10),
          (''header_bg_color'', rgb 240 240 240), (''border_color'', rgb 0 0 0),
          (''space_before'', JInt 12), (''space_after'', JInt 12)]),
       (''caption'', JObj
         [(''font_name'', JStr ''Times New Roman''), (''font_size'', JInt 10),
          (''italic'', JBool True), (''color'', rgb 80 80 80), (''space_before'', JInt 6),
          (''space_after'', JInt 12), (''alignment'', JStr ''center'')]),
       (''toc_heading'', JObj
         [(''font_name'', JStr ''Arial''), (''font_size'', JInt 16), (''bold'', JBool True),
          (''color'', rgb 0 0 0), (''space_before'', JInt 24), (''space_after'', JInt 12)]),
       (''toc_item'', JObj
         [(''font_name'', JStr ''Times New Roman''), (''font_size'', JInt 11),
          (''color'', rgb 0 0 0), (''space_after'', JInt 3)])]),
    (''document'', JObj
      [(''add_file_headers'', JBool True),
       (''page_break_between_files'', JBool True),
       (''margins'', JObj
         [(''top'', JFloat 25 (-1)), (''bottom'', JFloat 25 (-1)),
          (''left'', JFloat 25 (-1)), (''right'', JFloat 25 (-1))]),
       (''page_size'', JObj [(''width'', JFloat 210 (-1)), (''height'', JFloat 297 (-1))]),
       (''orientation'', JStr ''portrait''),
       (''generate_toc'', JBool True),
       (''toc_title'', JStr (''Table des mati'' @ [CHR 0xE8] @ ''res'')),
       (''header'', JObj
         [(''enabled'', JBool True), (''content'', JStr ''{chapter}''),
          (''first_page_different'', JBool True)]),
       (''footer'', JObj
         [(''enabled'', JBool True), (''content'', JStr ''Page {page}''),
          (''first_page_different'', JBool True)]),
       (''image_max_width'', JInt 15)])]"

subsection \<open>\<^verbatim>\<open>merge_configs\<close> on values\<close>

text \<open>
  \<^verbatim>\<open>merge_configs(default_config, user_config)\<close> updates \<open>default_config\<close> in place and
  returns nothing. Here the updated dictionary is returned: the loop over
  \<^verbatim>\<open>user_config.items()\<close> is the recursion over the association list, an assignment
  \<^verbatim>\<open>default_config[key] = value\<close> is \<open>AList.update\<close> (an existing key keeps its place, a
  new one goes to the end, as in a Python dictionary), and the recursive call on
  \<^verbatim>\<open>default_config[key]\<close> replaces that entry by its merged value.
\<close>

function merge_configs ::
  "(string \<times> json) list \<Rightarrow> (string \<times> json) list \<Rightarrow> (string \<times> json) list" where
  "merge_configs default_config [] = default_config"
| "merge_configs default_config ((key, val) # user_config) =
     merge_configs
       (case (map_of default_config key, val) of
          (Some (JObj d), JObj u) \<Rightarrow>
            AList.update key (JObj (merge_configs d u)) default_config
        | _ \<Rightarrow> AList.update key val default_config)
       user_config"
  by pat_completeness auto
termination
  by (relation "measure (\<lambda>(d, u). size_list (size_prod (\<lambda>_. 0) size) u)") auto

text \<open>The value a key of the override ends up with, given what the defaults hold there.\<close>

definition override_value :: "json option \<Rightarrow> json \<Rightarrow> json" where
  "override_value dv uv =
     (case (dv, uv) of
        (Some (JObj d), JObj u) \<Rightarrow> JObj (merge_configs d u)
      | _ \<Rightarrow> uv)"

subsection \<open>\<^verbatim>\<open>load_config\<close> in a store of dictionary objects\<close>

text \<open>
  \<^verbatim>\<open>load_config\<close> starts from \<^verbatim>\<open>DEFAULT_CONFIG.copy()\<close>, a copy of the top-level
  dictionary only: the nested dictionaries are shared with the global. What the in-place
  merge does to the global therefore needs the objects themselves. A store is a list of
  dictionary objects, an address is an index into it, and a dictionary's value is either a
  reference to another dictionary object or a value that is no dictionary (a list is never
  updated by the merge, so it stays a value).
\<close>

type_synonym addr = nat

datatype pyval = Val json | Ref addr

type_synonym pydict = "(string \<times> pyval) list"

type_synonym heap = "pydict list"

text \<open>Building the objects of a dictionary display or of a parsed document.\<close>

fun alloc_val :: "json \<Rightarrow> heap \<Rightarrow> heap \<times> pyval"
  and alloc_items :: "(string \<times> json) list \<Rightarrow> heap \<Rightarrow> heap \<times> pydict" where
  "alloc_val v h =
     (case v of
        JObj kvs \<Rightarrow> (case alloc_items kvs h of (h', d) \<Rightarrow> (h' @ [d], Ref (length h')))
      | _ \<Rightarrow> (h, Val v))"
| "alloc_items [] h = (h, [])"
| "alloc_items ((k, v) # kvs) h =
     (case alloc_val v h of (h1, pv) \<Rightarrow>
        (case alloc_items kvs h1 of (h2, d) \<Rightarrow> (h2, (k, pv) # d)))"

text \<open>
  The module's top level evaluates the display \<^verbatim>\<open>DEFAULT_CONFIG = {...}\<close>: afterwards
  the store holds its dictionaries and the global names the outermost one.
\<close>

definition module_heap :: heap where
  "module_heap = fst (alloc_val (JObj DEFAULT_CONFIG) [])"

definition DEFAULT_CONFIG_ref :: addr where
  "DEFAULT_CONFIG_ref = length module_heap - 1"

text \<open>
  \<^verbatim>\<open>merge_configs\<close> as the source runs it, on the object at address \<open>a\<close>. The override
  is the tree \<^verbatim>\<open>json.load\<close> returned, whose objects nothing else refers to; an object of
  it that is assigned into the configuration enters the store at that moment.
\<close>

fun merge_configs_h :: "heap \<Rightarrow> addr \<Rightarrow> (string \<times> json) list \<Rightarrow> heap" where
  "merge_configs_h h a [] = h"
| "merge_configs_h h a ((key, val) # user_config) =
     merge_configs_h
       (case (map_of (h ! a) key, val) of
          (Some (Ref b), JObj u) \<Rightarrow> merge_configs_h h b u
        | _ \<Rightarrow> (case alloc_val val h of (h', pv) \<Rightarrow> h'[a := AList.update key pv (h' ! a)]))
       a user_config"

text \<open>\<^verbatim>\<open>config[k1][k2]...\<close>, \<open>None\<close> where Python raises.\<close>

fun lookup_path :: "heap \<Rightarrow> pyval \<Rightarrow> string list \<Rightarrow> pyval option" where
  "lookup_path h v [] = Some v"
| "lookup_path h (Ref a) (k # ks) =
     (if a < length h then
        (case map_of (h ! a) k of None \<Rightarrow> None | Some v \<Rightarrow> lookup_path h v ks)
      else None)"
| "lookup_path h (Val _) (k # ks) = None"

text \<open>
  What \<^verbatim>\<open>load_config\<close> finds at the path it is given: nothing
  (\<^verbatim>\<open>os.path.exists\<close> is false), an exception from \<^verbatim>\<open>open\<close> or \<^verbatim>\<open>json.load\<close> with
  its message, or the parsed document.
\<close>

datatype read_result = NoSuchFile | Raised string | Loaded json

fun py_type_name :: "json \<Rightarrow> string" where
  "py_type_name JNull = ''NoneType''"
| "py_type_name (JBool _) = ''bool''"
| "py_type_name (JInt _) = ''int''"
| "py_type_name (JFloat _ _) = ''float''"
| "py_type_name (JStr _) = ''str''"
| "py_type_name (JArr _) = ''list''"
| "py_type_name (JObj _) = ''dict''"

text \<open>The message of the \<^verbatim>\<open>AttributeError\<close> that \<^verbatim>\<open>v.items()\<close> raises when \<open>v\<close> is no dictionary.\<close>

definition items_attribute_error :: "json \<Rightarrow> string" where
  "items_attribute_error v =
     [CHR 0x27] @ py_type_name v @ [CHR 0x27] @ '' object has no attribute '' @
     [CHR 0x27] @ ''items'' @ [CHR 0x27]"

text \<open>The two lines the \<^verbatim>\<open>except\<close> branch prints.\<close>

definition config_warning :: "string \<Rightarrow> string list" where
  "config_warning e =
     [''Erreur lors du chargement de la configuration: '' @ e,
      ''Utilisation de la configuration par d'' @ [CHR 0xE9] @ ''faut.'']"

text \<open>
  \<^verbatim>\<open>load_config(config_file)\<close> returns the address of the configuration and the lines
  printed, with the store it leaves. A document that is no dictionary makes
  \<^verbatim>\<open>user_config.items()\<close> raise \<^verbatim>\<open>AttributeError\<close> inside the \<^verbatim>\<open>try\<close>, before anything
  is assigned.
\<close>

definition load_config ::
  "(string \<Rightarrow> read_result) \<Rightarrow> string option \<Rightarrow> heap \<Rightarrow> (addr \<times> string list) \<times> heap" where
  "load_config fs config_file h =
     (let config = length h;
          h1 = h @ [h ! DEFAULT_CONFIG_ref]
      in case config_file of
           None \<Rightarrow> ((config, []), h1)
         | Some p \<Rightarrow>
             if p = [] then ((config, []), h1)
             else (case fs p of
                     NoSuchFile \<Rightarrow> ((config, []), h1)
                   | Raised e \<Rightarrow> ((config, config_warning e), h1)
                   | Loaded v \<Rightarrow>
                       (case v of
                          JObj u \<Rightarrow> ((config, []), merge_configs_h h1 config u)
                        | _ \<Rightarrow>
                          ((config, config_warning (items_attribute_error v)), h1))))"


text \<open>Two file systems and an override document used as concrete inputs below.\<close>

definition no_files :: "string \<Rightarrow> read_result" where
  "no_files p = NoSuchFile"

definition broken_files :: "string \<Rightarrow> read_result" where
  "broken_files p = Raised ''Expecting value: line 1 column 1 (char 0)''"

definition h1_override :: json where
  "h1_override = JObj [(''styles'', JObj [(''h1'', JObj [(''font_size'', JInt 20)])])]"

definition override_files :: "string \<Rightarrow> read_result" where
  "override_files p = (if p = ''config.json'' then Loaded h1_override else NoSuchFile)"

text \<open>The store after \<^verbatim>\<open>load_config('config.json')\<close> has run once at program start.\<close>

definition heap_after_override :: heap where
  "heap_after_override = snd (load_config override_files (Some ''config.json'') module_heap)"

section \<open>Properties of the configuration merge\<close>

lemma map_of_merge_configs:
  "distinct (map fst u) \<Longrightarrow>
   map_of (merge_configs d u) k =
     (case map_of u k of
        None \<Rightarrow> map_of d k
      | Some v \<Rightarrow> Some (override_value (map_of d k) v))"
proof (induction u arbitrary: d)
  case Nil
  then show ?case by simp
next
  case (Cons p u)
  obtain key val where p: "p = (key, val)" by (cases p)
  from Cons.prems p have nk: "key \<notin> fst ` set u" and du: "distinct (map fst u)" by auto
  from nk have mk: "map_of u key = None" by (simp add: map_of_eq_None_iff)
  show ?case
  proof (cases "k = key")
    case True
    then show ?thesis using p mk Cons.IH[OF du]
      by (auto simp: update_conv' override_value_def split: option.splits json.splits)
  next
    case False
    then show ?thesis using p Cons.IH[OF du]
      by (auto simp: update_conv' override_value_def split: option.splits json.splits)
  qed
qed

lemma keys_update: "fst ` set (AList.update k v d) = insert k (fst ` set d)"
  using dom_update [of k v d] by (simp add: dom_map_of_conv_image_fst)

lemma keys_merge_configs:
  "fst ` set (merge_configs d u) = fst ` set d \<union> fst ` set u"
proof (induction u arbitrary: d)
  case Nil
  then show ?case by simp
next
  case (Cons p u)
  obtain key val where p: "p = (key, val)" by (cases p)
  show ?case unfolding p
    by (simp add: Cons.IH keys_update split: option.splits json.splits)
qed

text \<open>
  Claim C7. For every default tree \<open>d\<close> and override \<open>u\<close> (a dictionary, so its keys are
  distinct) the merge is a recursive key-wise union: merging the empty override returns
  the defaults; the keys of the result are those of either side; a key absent from the
  override keeps its default value; a key of the override holds \<open>override_value\<close>, which is
  the override's value when that is no dictionary (or the default is none) and the merge
  of the two dictionaries otherwise; and an override that sets one leaf field \<open>f\<close> of one
  nested profile \<open>p\<close> changes that field only, every sibling field and every other
  profile keeping its default.
\<close>

theorem merge_configs_recursive_union:
  assumes "distinct (map fst u)"
  shows "merge_configs d [] = d
       \<and> fst ` set (merge_configs d u) = fst ` set d \<union> fst ` set u
       \<and> (\<forall>k. map_of u k = None \<longrightarrow> map_of (merge_configs d u) k = map_of d k)
       \<and> (\<forall>k v. map_of u k = Some v \<longrightarrow>
             map_of (merge_configs d u) k = Some (override_value (map_of d k) v))
       \<and> (\<forall>k v. map_of u k = Some v \<and> \<not> is_dict v \<longrightarrow>
             map_of (merge_configs d u) k = Some v)
       \<and> (\<forall>k dd uu. map_of u k = Some (JObj uu) \<and> map_of d k = Some (JObj dd) \<longrightarrow>
             map_of (merge_configs d u) k = Some (JObj (merge_configs dd uu)))
       \<and> (\<forall>p f v prof. map_of d p = Some (JObj prof) \<and> \<not> is_dict v \<longrightarrow>
             (\<exists>prof'. map_of (merge_configs d [(p, JObj [(f, v)])]) p = Some (JObj prof')
                \<and> map_of prof' f = Some v
                \<and> (\<forall>g. g \<noteq> f \<longrightarrow> map_of prof' g = map_of prof g))
           \<and> (\<forall>q. q \<noteq> p \<longrightarrow> map_of (merge_configs d [(p, JObj [(f, v)])]) q = map_of d q))"
proof -
  have nd: "override_value x v = v" if "\<not> is_dict v" for x v
    using that by (cases v) (auto simp: override_value_def split: option.splits json.splits)
  have leaf: "map_of (merge_configs prof [(f, v)]) g = (if g = f then Some v else map_of prof g)"
    if "\<not> is_dict v" for prof f v g
    using that map_of_merge_configs [of "[(f, v)]" prof g] by (simp add: nd)
  have one: "merge_configs d [(p, JObj [(f, v)])]
             = AList.update p (JObj (merge_configs prof [(f, v)])) d"
    if "map_of d p = Some (JObj prof)" for p f v prof
    using that by simp
  have c1: "merge_configs d [] = d" by simp
  have c2: "fst ` set (merge_configs d u) = fst ` set d \<union> fst ` set u"
    by (rule keys_merge_configs)
  have c3: "map_of (merge_configs d u) k = map_of d k" if "map_of u k = None" for k
    using that assms by (simp add: map_of_merge_configs)
  have c4: "map_of (merge_configs d u) k = Some (override_value (map_of d k) v)"
    if "map_of u k = Some v" for k v
    using that assms by (simp add: map_of_merge_configs)
  have c5: "map_of (merge_configs d u) k = Some v"
    if "map_of u k = Some v \<and> \<not> is_dict v" for k v
    using that c4 [of k v] by (simp add: nd)
  have c6: "map_of (merge_configs d u) k = Some (JObj (merge_configs dd uu))"
    if "map_of u k = Some (JObj uu) \<and> map_of d k = Some (JObj dd)" for k dd uu
    using that c4 [of k "JObj uu"] by (simp add: override_value_def)
  have c7: "(\<exists>prof'. map_of (merge_configs d [(p, JObj [(f, v)])]) p = Some (JObj prof')
                \<and> map_of prof' f = Some v
                \<and> (\<forall>g. g \<noteq> f \<longrightarrow> map_of prof' g = map_of prof g))
           \<and> (\<forall>q. q \<noteq> p \<longrightarrow> map_of (merge_configs d [(p, JObj [(f, v)])]) q = map_of d q)"
    if h: "map_of d p = Some (JObj prof) \<and> \<not> is_dict v" for p f v prof
  proof -
    let ?prof' = "merge_configs prof [(f, v)]"
    have r: "merge_configs d [(p, JObj [(f, v)])] = AList.update p (JObj ?prof') d"
      using h one [of p prof f v] by blast
    have "map_of (AList.update p (JObj ?prof') d) p = Some (JObj ?prof')"
      by (simp add: update_conv')
    moreover have "map_of ?prof' f = Some v" using h leaf [of v prof f f] by simp
    moreover have "\<forall>g. g \<noteq> f \<longrightarrow> map_of ?prof' g = map_of prof g"
      using h leaf [of v prof f] by simp
    moreover have "\<forall>q. q \<noteq> p \<longrightarrow> map_of (AList.update p (JObj ?prof') d) q = map_of d q"
      by (simp add: update_conv')
    ultimately show ?thesis unfolding r by blast
  qed
  show ?thesis
  proof (intro conjI allI impI)
    show "merge_configs d [] = d" by (rule c1)
    show "fst ` set (merge_configs d u) = fst ` set d \<union> fst ` set u" by (rule c2)
    show "map_of (merge_configs d u) k = map_of d k" if "map_of u k = None" for k
      using that by (rule c3)
    show "map_of (merge_configs d u) k = Some (override_value (map_of d k) v)"
      if "map_of u k = Some v" for k v
      using that by (rule c4)
    show "map_of (merge_configs d u) k = Some v"
      if "map_of u k = Some v \<and> \<not> is_dict v" for k v
      using that by (rule c5)
    show "map_of (merge_configs d u) k = Some (JObj (merge_configs dd uu))"
      if "map_of u k = Some (JObj uu) \<and> map_of d k = Some (JObj dd)" for k dd uu
      using that by (rule c6)
    show "\<exists>prof'. map_of (merge_configs d [(p, JObj [(f, v)])]) p = Some (JObj prof')
                \<and> map_of prof' f = Some v
                \<and> (\<forall>g. g \<noteq> f \<longrightarrow> map_of prof' g = map_of prof g)"
      if "map_of d p = Some (JObj prof) \<and> \<not> is_dict v" for p f v prof
      using c7 [OF that] by (rule conjunct1)
    show "map_of (merge_configs d [(p, JObj [(f, v)])]) q = map_of d q"
      if "map_of d p = Some (JObj prof) \<and> \<not> is_dict v" "q \<noteq> p" for p f v prof q
      using c7 [OF that(1), of f] that(2) by blast
  qed
qed

theorem merge_configs_recursive_union_witness:
  "distinct (map fst [(''table'', JObj [(''font_size'', JInt 12)]), (''extra'', JNull)])
   \<and> merge_configs
       [(''table'', JObj [(''font_size'', JInt 10), (''font_name'', JStr ''Arial'')]),
        (''toc'', JBool True)]
       [(''table'', JObj [(''font_size'', JInt 12)]), (''extra'', JNull)]
     = [(''table'', JObj [(''font_size'', JInt 12), (''font_name'', JStr ''Arial'')]),
        (''toc'', JBool True), (''extra'', JNull)]
   \<and> map_of
       (merge_configs
          [(''table'', JObj [(''font_size'', JInt 10), (''font_name'', JStr ''Arial'')]),
           (''toc'', JBool True)]
          [(''table'', JObj [(''font_size'', JInt 12)]), (''extra'', JNull)])
       ''toc'' = Some (JBool True)"
  using merge_configs_recursive_union
    [of "[(''table'', JObj [(''font_size'', JInt 12)]), (''extra'', JNull)]"
        "[(''table'', JObj [(''font_size'', JInt 10), (''font_name'', JStr ''Arial'')]),
          (''toc'', JBool True)]"]
  by simp

section \<open>Properties of \<^verbatim>\<open>load_config\<close>\<close>

lemma DEFAULT_CONFIG_ref_eval [code]: "DEFAULT_CONFIG_ref = 32"
  by code_simp

text \<open>
  Claim C8 says that loading never changes the built-in defaults. The code copies only the
  outermost dictionary, so the merge writes into the nested dictionaries of
  \<^verbatim>\<open>DEFAULT_CONFIG\<close> themselves: after loading an override that sets
  \<^verbatim>\<open>styles.h1.font_size\<close> to 20, the global holds 20 where it held 18, and a later
  \<^verbatim>\<open>load_config()\<close> without any override returns 20 as well.
\<close>

theorem load_config_mutates_DEFAULT_CONFIG:
  "lookup_path module_heap (Ref DEFAULT_CONFIG_ref) [''styles'', ''h1'', ''font_size'']
     = Some (Val (JInt 18))
   \<and> fst (load_config override_files (Some ''config.json'') module_heap) = (33, [])
   \<and> lookup_path heap_after_override (Ref DEFAULT_CONFIG_ref)
         [''styles'', ''h1'', ''font_size'']
       = Some (Val (JInt 20))
   \<and> fst (load_config no_files None heap_after_override) = (34, [])
   \<and> lookup_path (snd (load_config no_files None heap_after_override)) (Ref 34)
         [''styles'', ''h1'', ''font_size'']
       = Some (Val (JInt 20))"
  by code_simp

text \<open>
  Claim C9 as stated fails for a missing file: \<^verbatim>\<open>os.path.exists\<close> guards the whole
  \<^verbatim>\<open>try\<close> block, so nothing is printed.
\<close>

theorem load_config_missing_file_prints_nothing:
  "snd (fst (load_config no_files (Some ''missing.json'') module_heap)) = []"
  by (simp add: load_config_def no_files_def)

text \<open>
  Claim C9, amended. \<^verbatim>\<open>load_config\<close> has no failing outcome. For a path that is
  missing it prints nothing and returns a configuration that is a copy of the outermost
  default dictionary, the store being otherwise unchanged; for a path whose content fails
  to load (an exception \<open>e\<close> from \<^verbatim>\<open>open\<close> or \<^verbatim>\<open>json.load\<close>), and for a document that is
  no dictionary, it prints the two warning lines and returns the same.
\<close>

theorem load_config_falls_back_to_defaults:
  "(fs p = NoSuchFile \<longrightarrow>
      load_config fs (Some p) h = ((length h, []), h @ [h ! DEFAULT_CONFIG_ref]))
   \<and> (p \<noteq> [] \<and> fs p = Raised e \<longrightarrow>
      load_config fs (Some p) h = ((length h, config_warning e), h @ [h ! DEFAULT_CONFIG_ref]))
   \<and> (p \<noteq> [] \<and> fs p = Loaded v \<and> \<not> is_dict v \<longrightarrow>
      load_config fs (Some p) h
        = ((length h, config_warning (items_attribute_error v)), h @ [h ! DEFAULT_CONFIG_ref]))"
  by (cases v) (simp_all add: load_config_def Let_def)

theorem load_config_falls_back_to_defaults_witness:
  "no_files ''missing.json'' = NoSuchFile
   \<and> load_config no_files (Some ''missing.json'') module_heap
       = ((length module_heap, []), module_heap @ [module_heap ! DEFAULT_CONFIG_ref])
   \<and> ''bad.json'' \<noteq> []
   \<and> broken_files ''bad.json'' = Raised ''Expecting value: line 1 column 1 (char 0)''
   \<and> load_config broken_files (Some ''bad.json'') module_heap
       = ((length module_heap, config_warning ''Expecting value: line 1 column 1 (char 0)''),
          module_heap @ [module_heap ! DEFAULT_CONFIG_ref])"
  using
    load_config_falls_back_to_defaults
      [where fs = no_files and p = "''missing.json''" and h = module_heap]
    load_config_falls_back_to_defaults
      [where fs = broken_files and p = "''bad.json''" and h = module_heap
         and e = "''Expecting value: line 1 column 1 (char 0)''"]
  by (simp add: no_files_def broken_files_def)

end
